theory Spec2Isabelle
  imports Main "HOL-Library.Word"
begin

unbundle bit_operations_syntax

section \<open>The COM vocabulary used by wmi.hxx\<close>

text \<open>
  \<open>HRESULT\<close> is a signed 32-bit status code; the \<open>FAILED\<close> macro tests its sign bit.
  \<open>VARTYPE\<close> is an unsigned 16-bit tag. A \<open>BSTR\<close> is a pointer to wide characters that
  may be null.
\<close>

type_synonym HRESULT = "32 word"
type_synonym VARTYPE = "16 word"
type_synonym wchar = "16 word"
type_synonym BSTR = "wchar list option"

definition FAILED :: "HRESULT \<Rightarrow> bool" where
  "FAILED hr = (sint hr < 0)"

definition WBEM_S_NO_ERROR :: HRESULT where "WBEM_S_NO_ERROR = 0"
definition WBEM_S_FALSE :: HRESULT where "WBEM_S_FALSE = 1"
definition WBEM_E_FAILED :: HRESULT where "WBEM_E_FAILED = 0x80041001"
definition WBEM_E_NOT_FOUND :: HRESULT where "WBEM_E_NOT_FOUND = 0x80041002"
definition WBEM_E_INVALID_OPERATION :: HRESULT where "WBEM_E_INVALID_OPERATION = 0x80041016"
definition E_INVALIDARG :: HRESULT where "E_INVALIDARG = 0x80070057"
definition DISP_E_TYPEMISMATCH :: HRESULT where "DISP_E_TYPEMISMATCH = 0x80020005"

definition WBEM_INFINITE :: int where "WBEM_INFINITE = - 1"

definition VT_I4 :: VARTYPE where "VT_I4 = 3"
definition VT_BSTR :: VARTYPE where "VT_BSTR = 8"
definition VT_ARRAY :: VARTYPE where "VT_ARRAY = 0x2000"

text \<open>
  A \<open>SAFEARRAY\<close> of strings as WMI delivers it: one dimension, lower bound 0, with the
  element type recorded in the descriptor. \<open>CComVariant\<close> is the tagged union; only the
  members that wmi.hxx reads are kept, and each is read only under the tag test that
  guards it in the source.
\<close>

record SAFEARRAY =
  sa_vt :: VARTYPE
  pvData :: "BSTR list"

record CComVariant =
  vt :: VARTYPE
  bstrVal :: BSTR
  parray :: "SAFEARRAY option"

section \<open>Exceptions and try/catch\<close>

text \<open>
  The three kinds of C++ exception that the handlers of wmi.hxx tell apart:
  \<open>_com_error\<close>, anything derived from \<open>std::exception\<close>, and everything else
  (for instance ATL's \<open>CAtlException\<close>). A \<open>try\<close> block is a value of \<open>exn + 'r\<close>;
  its handlers are tried in the order written, and an exception that no handler matches
  propagates.
\<close>

datatype exn = com_error HRESULT | std_exception string | other_exception HRESULT

datatype 'r handler =
    catch_com_error "HRESULT \<Rightarrow> 'r"
  | catch_std_exception "string \<Rightarrow> 'r"
  | catch_all 'r

fun handles :: "'r handler \<Rightarrow> exn \<Rightarrow> 'r option" where
  "handles (catch_com_error f) (com_error hr) = Some (f hr)"
| "handles (catch_std_exception f) (std_exception what) = Some (f what)"
| "handles (catch_all r) e = Some r"
| "handles h e = None"

fun try_catch :: "exn + 'r \<Rightarrow> 'r handler list \<Rightarrow> exn + 'r" where
  "try_catch (Inr r) hs = Inr r"
| "try_catch (Inl e) [] = Inl e"
| "try_catch (Inl e) (h # hs) =
     (case handles h e of Some r \<Rightarrow> Inr r | None \<Rightarrow> try_catch (Inl e) hs)"

section \<open>Value Converter\<close>

text \<open>
  What the converters call in the platform headers:
  \<open>ConvertBSTRToString\<close> of \<open>_com_util\<close> (decoding of a non-null wide string),
  \<open>CComSafeArray<BSTR>::Attach\<close> (which throws when it rejects the array, and otherwise
  gives access to the elements), and the conversion operators of \<open>variant_t\<close> behind
  \<open>static_cast<T>(variant_t(variant))\<close>, which throw on failure. \<open>'ty\<close> names the
  target type \<open>T\<close>, \<open>'a\<close> is the type of the values such a cast produces.
\<close>

record ('ty, 'a) com_support =
  ConvertBSTRToString :: "wchar list \<Rightarrow> string"
  Attach :: "SAFEARRAY option \<Rightarrow> exn + BSTR list"
  static_cast :: "'ty \<Rightarrow> CComVariant \<Rightarrow> exn + 'a"

text \<open>What a handler of the generic converter writes to \<open>std::cerr\<close>.\<close>

datatype cerr_line =
    cerr_com_error HRESULT
  | cerr_std_error string
  | cerr_unknown_error

text \<open>\<open>ConvertBstrToString\<close>, lines 57-62.\<close>

definition ConvertBstrToString :: "('ty, 'a) com_support \<Rightarrow> CComVariant \<Rightarrow> string option" where
  "ConvertBstrToString S variant =
     (if vt variant = VT_BSTR \<and> bstrVal variant \<noteq> None
      then Some (ConvertBSTRToString S (the (bstrVal variant)))
      else None)"

text \<open>
  The generic \<open>ConvertVariant<T>\<close>, lines 117-135: the cast inside \<open>try\<close>, then the three
  handlers in source order. The result carries the lines written to \<open>std::cerr\<close>.
\<close>

definition ConvertVariant ::
  "('ty, 'a) com_support \<Rightarrow> 'ty \<Rightarrow> CComVariant \<Rightarrow> exn + (cerr_line list \<times> 'a option)" where
  "ConvertVariant S T variant =
     try_catch (map_sum id (\<lambda>x. ([], Some x)) (static_cast S T variant))
       [catch_com_error (\<lambda>hr. ([cerr_com_error hr], None)),
        catch_std_exception (\<lambda>what. ([cerr_std_error what], None)),
        catch_all ([cerr_unknown_error], None)]"

text \<open>\<open>ConvertVariant<std::string>\<close>, lines 143-147.\<close>

definition ConvertVariant_string :: "('ty, 'a) com_support \<Rightarrow> CComVariant \<Rightarrow> string option" where
  "ConvertVariant_string S variant = ConvertBstrToString S variant"

text \<open>
  \<open>CComSafeArray<BSTR>\<close> after a successful \<open>Attach\<close> is the list of its elements.
  \<open>GetCount\<close> is the number of elements; \<open>GetAt\<close> checks its index and throws
  \<open>E_INVALIDARG\<close> outside the bounds.
\<close>

definition GetCount :: "BSTR list \<Rightarrow> nat" where
  "GetCount safe_array = length safe_array"

definition GetAt :: "BSTR list \<Rightarrow> nat \<Rightarrow> exn + BSTR" where
  "GetAt safe_array i =
     (if i < length safe_array then Inr (safe_array ! i)
      else Inl (other_exception E_INVALIDARG))"

text \<open>The loop of lines 175-180: \<open>for (ULONG i = 0; i < count; ++i)\<close>.\<close>

function emplace_loop ::
  "('ty, 'a) com_support \<Rightarrow> BSTR list \<Rightarrow> nat \<Rightarrow> nat \<Rightarrow> string list \<Rightarrow> exn + string list" where
  "emplace_loop S safe_array i count result =
     (if i < count then
        (case GetAt safe_array i of
           Inl e \<Rightarrow> Inl e
         | Inr None \<Rightarrow> emplace_loop S safe_array (i + 1) count result
         | Inr (Some bstr) \<Rightarrow>
             emplace_loop S safe_array (i + 1) count (result @ [ConvertBSTRToString S bstr]))
      else Inr result)"
  by pat_completeness auto
termination
  by (relation "measure (\<lambda>(S, safe_array, i, count, result). count - i)") auto

declare emplace_loop.simps [simp del]

text \<open>\<open>ConvertVariant<std::vector<std::string>>\<close>, lines 155-184.\<close>

definition ConvertVariant_string_vector ::
  "('ty, 'a) com_support \<Rightarrow> CComVariant \<Rightarrow> exn + string list option" where
  "ConvertVariant_string_vector S variant =
     (if vt variant \<noteq> (VT_ARRAY OR VT_BSTR) then Inr None
      else
        (case try_catch (map_sum id Some (Attach S (parray variant))) [catch_all None] of
           Inl e \<Rightarrow> Inl e
         | Inr None \<Rightarrow> Inr None
         | Inr (Some safe_array) \<Rightarrow>
             map_sum id Some (emplace_loop S safe_array 0 (GetCount safe_array) [])))"

text \<open>
  The specification's wording for the successful case: the non-null elements, decoded, in
  their original order.
\<close>

definition decoded_non_null :: "('ty, 'a) com_support \<Rightarrow> BSTR list \<Rightarrow> string list" where
  "decoded_non_null S elements = map (ConvertBSTRToString S) (List.map_filter id elements)"

section \<open>Property Object\<close>

text \<open>
  An \<open>Object\<close> holds the interface that produced it and the handle of the remote record
  (the members \<open>iface_\<close> and \<open>object_\<close>; a name cannot end in an underscore here).
  \<open>IWbemClassObject::Get\<close> is the remote lookup: a status and the variant it filled in.
\<close>

record ('i, 'h) Object =
  obj_iface :: 'i
  obj_object :: 'h

type_synonym 'h IWbemClassObject_Get = "'h \<Rightarrow> wchar list \<Rightarrow> HRESULT \<times> CComVariant"

text \<open>
  The target type \<open>T\<close> of \<open>GetProperty<T>\<close> and the value it yields: the default
  \<open>variant_t\<close>, the two specialised converters, and any other type.
\<close>

datatype 'ty target = T_variant_t | T_string | T_string_vector | T_other 'ty

datatype 'a property_value =
    as_variant_t CComVariant
  | as_string string
  | as_string_vector "string list"
  | as_other 'a

text \<open>\<open>ConvertVariant<T>\<close> as overload resolution picks it for each \<open>T\<close>.\<close>

fun ConvertVariant_T ::
  "('ty, 'a) com_support \<Rightarrow> 'ty target \<Rightarrow> CComVariant \<Rightarrow>
     exn + (cerr_line list \<times> 'a property_value option)" where
  "ConvertVariant_T S T_string variant =
     Inr ([], map_option as_string (ConvertVariant_string S variant))"
| "ConvertVariant_T S T_string_vector variant =
     map_sum id (\<lambda>r. ([], map_option as_string_vector r)) (ConvertVariant_string_vector S variant)"
| "ConvertVariant_T S (T_other T) variant =
     map_sum id (\<lambda>(log, r). (log, map_option as_other r)) (ConvertVariant S T variant)"
| "ConvertVariant_T S T_variant_t variant = Inr ([], Some (as_variant_t variant))"

text \<open>\<open>Object::GetProperty<T>\<close>, lines 206-220.\<close>

definition GetProperty ::
  "('ty, 'a) com_support \<Rightarrow> 'h IWbemClassObject_Get \<Rightarrow> ('i, 'h) Object \<Rightarrow> 'ty target \<Rightarrow>
     wchar list \<Rightarrow> exn + (cerr_line list \<times> 'a property_value option)" where
  "GetProperty S Get obj T name =
     (let (result, variant) = Get (obj_object obj) name in
      if FAILED result then Inr ([], None)
      else if T = T_variant_t then Inr ([], Some (as_variant_t variant))
      else ConvertVariant_T S T variant)"

section \<open>Batch Iterator and Query Result\<close>

text \<open>
  \<open>IEnumWbemClassObject\<close> is the remote cursor. \<open>Next\<close> takes the cursor's state, the
  timeout and the number of records asked for, and gives the status, the records it wrote
  to the caller's array (their number is \<open>returned_count\<close>) and the cursor's new state.
  \<open>Reset\<close> gives a status and the new state.
\<close>

record ('e, 'h) IEnumWbemClassObject =
  Next :: "'e \<Rightarrow> int \<Rightarrow> nat \<Rightarrow> HRESULT \<times> 'h list \<times> 'e"
  Reset :: "'e \<Rightarrow> HRESULT \<times> 'e"

text \<open>
  A \<open>CComPtr<IEnumWbemClassObject>\<close> is null or the address of a cursor; copying the
  pointer shares the cursor. The cursors live in a store indexed by address, which every
  operation that calls the cursor takes and returns.
\<close>

type_synonym 'e remote = "nat \<Rightarrow> 'e"

text \<open>
  The members \<open>iface_\<close>, \<open>enumerator_\<close>, \<open>batch_\<close>, \<open>current_index_\<close> and \<open>is_end_\<close>
  of \<open>QueryResult::Iterator\<close>, and \<open>iface_\<close> and \<open>enumerator_\<close> of \<open>QueryResult\<close>.
  \<open>current_index_\<close> is a \<open>size_t\<close> and \<open>returned_count\<close> a \<open>ULONG\<close>; the index is
  reset as soon as it reaches the length of the batch, and a batch is no longer than what
  one \<open>Next\<close> returned, so neither can wrap around and both are natural numbers here.
\<close>

record ('i, 'h) Iterator =
  iface :: 'i
  enumerator :: "nat option"
  batch :: "('i, 'h) Object list"
  current_index :: nat
  is_end :: bool

record 'i QueryResult =
  qr_iface :: 'i
  qr_enumerator :: "nat option"

text \<open>
  The class fixes the request size: \<open>static constexpr ULONG BATCH_SIZE = 10\<close>. The
  operations below take the request size as the argument \<open>batch_size\<close>, so that a
  statement about every batch size can be made; the code is the instance
  \<open>batch_size = BATCH_SIZE\<close>.
\<close>

definition BATCH_SIZE :: nat where
  "BATCH_SIZE = 10"

text \<open>\<open>FetchNextBatch\<close>, lines 291-316.\<close>

definition FetchNextBatch ::
  "('e, 'h) IEnumWbemClassObject \<Rightarrow> nat \<Rightarrow> 'e remote \<Rightarrow> ('i, 'h) Iterator \<Rightarrow>
     'e remote \<times> ('i, 'h) Iterator" where
  "FetchNextBatch E batch_size \<sigma> it =
     (let it = it\<lparr>batch := [], current_index := 0\<rparr> in
      case enumerator it of
        None \<Rightarrow> (\<sigma>, it\<lparr>is_end := True\<rparr>)
      | Some p \<Rightarrow>
          (let (result, objects, e') = Next E (\<sigma> p) WBEM_INFINITE batch_size;
               returned_count = length objects;
               \<sigma>' = \<sigma>(p := e')
           in if FAILED result \<or> returned_count = 0 then (\<sigma>', it\<lparr>is_end := True\<rparr>)
              else (\<sigma>', it\<lparr>batch :=
                     map (\<lambda>object. \<lparr>obj_iface = iface it, obj_object = object\<rparr>) objects\<rparr>)))"

text \<open>The constructor, lines 246-255.\<close>

definition Iterator_ctor ::
  "('e, 'h) IEnumWbemClassObject \<Rightarrow> nat \<Rightarrow> 'e remote \<Rightarrow> 'i \<Rightarrow> nat option \<Rightarrow> bool \<Rightarrow>
     'e remote \<times> ('i, 'h) Iterator" where
  "Iterator_ctor E batch_size \<sigma> iface0 enumerator0 is_end0 =
     (let it = \<lparr>iface = iface0, enumerator = enumerator0, batch = [],
                current_index = 0, is_end = is_end0\<rparr>
      in if \<not> is_end it \<and> enumerator it \<noteq> None then FetchNextBatch E batch_size \<sigma> it
         else (\<sigma>, it))"

text \<open>
  \<open>operator*\<close>, line 257: \<open>batch_[current_index_]\<close> with no check. An index past the end
  of the vector is undefined behaviour; here it is \<open>None\<close>.
\<close>

definition operator_star :: "('i, 'h) Iterator \<Rightarrow> ('i, 'h) Object option" where
  "operator_star it =
     (if current_index it < length (batch it) then Some (batch it ! current_index it)
      else None)"

text \<open>Prefix \<open>operator++\<close>, lines 261-272, and postfix \<open>operator++(int)\<close>, lines 274-278.\<close>

definition operator_preincrement ::
  "('e, 'h) IEnumWbemClassObject \<Rightarrow> nat \<Rightarrow> 'e remote \<Rightarrow> ('i, 'h) Iterator \<Rightarrow>
     'e remote \<times> ('i, 'h) Iterator" where
  "operator_preincrement E batch_size \<sigma> it =
     (if is_end it then (\<sigma>, it)
      else
        (let it = it\<lparr>current_index := current_index it + 1\<rparr>
         in if current_index it \<ge> length (batch it) then FetchNextBatch E batch_size \<sigma> it
            else (\<sigma>, it)))"

definition operator_postincrement ::
  "('e, 'h) IEnumWbemClassObject \<Rightarrow> nat \<Rightarrow> 'e remote \<Rightarrow> ('i, 'h) Iterator \<Rightarrow>
     ('e remote \<times> ('i, 'h) Iterator) \<times> ('i, 'h) Iterator" where
  "operator_postincrement E batch_size \<sigma> it =
     (let temp = it in (operator_preincrement E batch_size \<sigma> it, temp))"

text \<open>\<open>operator==\<close> and \<open>operator!=\<close>, lines 280-282.\<close>

definition operator_eq :: "('i, 'h) Iterator \<Rightarrow> ('i, 'h) Iterator \<Rightarrow> bool" where
  "operator_eq this other = (is_end this = is_end other)"

definition operator_ne :: "('i, 'h) Iterator \<Rightarrow> ('i, 'h) Iterator \<Rightarrow> bool" where
  "operator_ne this other = (\<not> operator_eq this other)"

text \<open>\<open>QueryResult::begin\<close>, lines 330-335, and \<open>QueryResult::end\<close>, line 342.\<close>

definition QueryResult_begin ::
  "('e, 'h) IEnumWbemClassObject \<Rightarrow> nat \<Rightarrow> 'e remote \<Rightarrow> 'i QueryResult \<Rightarrow>
     'e remote \<times> ('i, 'h) Iterator" where
  "QueryResult_begin E batch_size \<sigma> qr =
     (let \<sigma>' = (case qr_enumerator qr of
                  None \<Rightarrow> \<sigma>
                | Some p \<Rightarrow> \<sigma>(p := snd (Reset E (\<sigma> p))))
      in Iterator_ctor E batch_size \<sigma>' (qr_iface qr) (qr_enumerator qr) False)"

definition QueryResult_end ::
  "('e, 'h) IEnumWbemClassObject \<Rightarrow> nat \<Rightarrow> 'e remote \<Rightarrow> 'i QueryResult \<Rightarrow>
     'e remote \<times> ('i, 'h) Iterator" where
  "QueryResult_end E batch_size \<sigma> qr = Iterator_ctor E batch_size \<sigma> (qr_iface qr) None True"

subsection \<open>Iterating\<close>

text \<open>
  The consumer's loop \<open>for (; it != end_it; ++it) visit(*it)\<close>, collecting the
  objects visited. The loop need not end for an arbitrary cursor, so its result is an
  option; a dereference outside the batch ends it with \<open>Inl out_of_range\<close>.
\<close>

datatype fault = out_of_range

partial_function (option) iterate ::
  "('e, 'h) IEnumWbemClassObject \<Rightarrow> nat \<Rightarrow> 'e remote \<Rightarrow> ('i, 'h) Iterator \<Rightarrow>
     ('i, 'h) Iterator \<Rightarrow> ('i, 'h) Object list \<Rightarrow>
     ('e remote \<times> (fault + ('i, 'h) Object list)) option" where
  "iterate E batch_size \<sigma> it end_it visited =
     (if operator_ne it end_it then
        (case operator_star it of
           None \<Rightarrow> Some (\<sigma>, Inl out_of_range)
         | Some obj \<Rightarrow>
             (case operator_preincrement E batch_size \<sigma> it of
                (\<sigma>', it') \<Rightarrow> iterate E batch_size \<sigma>' it' end_it (visited @ [obj])))
      else Some (\<sigma>, Inr visited))"

text \<open>The range-based \<open>for\<close> over a \<open>QueryResult\<close>, as memory.cpp and storage.cpp use it.\<close>

definition range_for ::
  "('e, 'h) IEnumWbemClassObject \<Rightarrow> nat \<Rightarrow> 'e remote \<Rightarrow> 'i QueryResult \<Rightarrow>
     ('e remote \<times> (fault + ('i, 'h) Object list)) option" where
  "range_for E batch_size \<sigma> qr =
     (let (\<sigma>1, it) = QueryResult_begin E batch_size \<sigma> qr;
          (\<sigma>2, end_it) = QueryResult_end E batch_size \<sigma>1 qr
      in iterate E batch_size \<sigma>2 it end_it [])"

text \<open>\<open>n\<close> successive calls of prefix \<open>operator++\<close>.\<close>

fun advance ::
  "('e, 'h) IEnumWbemClassObject \<Rightarrow> nat \<Rightarrow> nat \<Rightarrow> 'e remote \<times> ('i, 'h) Iterator \<Rightarrow>
     'e remote \<times> ('i, 'h) Iterator" where
  "advance E batch_size 0 s = s"
| "advance E batch_size (Suc n) s =
     advance E batch_size n (operator_preincrement E batch_size (fst s) (snd s))"

subsection \<open>A remote cursor over a fixed backing store\<close>

text \<open>
  The remote enumerators the statements about whole passes are made for: a cursor over a
  list of records that hands them out in order. \<open>Next\<close> gives up to the number asked
  for, with \<open>WBEM_S_NO_ERROR\<close> when it gave that many and \<open>WBEM_S_FALSE\<close> when
  fewer were left. There are two kinds of \<open>Reset\<close>. That of a conventional enumerator
  moves back to the first record. That of a forward-only enumerator, the kind
  \<open>ExecuteQuery\<close> asks for with \<open>WBEM_FLAG_FORWARD_ONLY\<close> (lines 414-416), fails
  with \<open>WBEM_E_INVALID_OPERATION\<close> and leaves the cursor where it is.
\<close>

record 'h cursor =
  records :: "'h list"
  position :: nat

definition cursor_Next :: "'h cursor \<Rightarrow> int \<Rightarrow> nat \<Rightarrow> HRESULT \<times> 'h list \<times> 'h cursor" where
  "cursor_Next c timeout count =
     (let objects = take count (drop (position c) (records c))
      in (if length objects = count then WBEM_S_NO_ERROR else WBEM_S_FALSE,
          objects,
          c\<lparr>position := position c + length objects\<rparr>))"

definition cursor_Reset :: "'h cursor \<Rightarrow> HRESULT \<times> 'h cursor" where
  "cursor_Reset c = (WBEM_S_NO_ERROR, c\<lparr>position := 0\<rparr>)"

definition store_enumerator :: "('h cursor, 'h) IEnumWbemClassObject" where
  "store_enumerator = \<lparr>Next = cursor_Next, Reset = cursor_Reset\<rparr>"

definition forward_only_Reset :: "'h cursor \<Rightarrow> HRESULT \<times> 'h cursor" where
  "forward_only_Reset c = (WBEM_E_INVALID_OPERATION, c)"

definition forward_only_enumerator :: "('h cursor, 'h) IEnumWbemClassObject" where
  "forward_only_enumerator = \<lparr>Next = cursor_Next, Reset = forward_only_Reset\<rparr>"

definition wrap :: "'i \<Rightarrow> 'h \<Rightarrow> ('i, 'h) Object" where
  "wrap i h = \<lparr>obj_iface = i, obj_object = h\<rparr>"

text \<open>
  The states a pass over such a cursor goes through. With the cursor at position \<open>q\<close>,
  an active iterator holds the \<open>m\<close> records before \<open>q\<close> and stands at index \<open>j\<close>
  of them; an exhausted one holds nothing.
\<close>

definition at_position :: "'h list \<Rightarrow> nat \<Rightarrow> 'h cursor" where
  "at_position xs q = \<lparr>records = xs, position = q\<rparr>"

definition active_at :: "'i \<Rightarrow> nat \<Rightarrow> 'h list \<Rightarrow> nat \<Rightarrow> nat \<Rightarrow> nat \<Rightarrow> ('i, 'h) Iterator" where
  "active_at i p xs q m j =
     \<lparr>iface = i, enumerator = Some p, batch = map (wrap i) (take m (drop (q - m) xs)),
      current_index = j, is_end = False\<rparr>"

definition exhausted_at :: "'i \<Rightarrow> nat \<Rightarrow> ('i, 'h) Iterator" where
  "exhausted_at i p =
     \<lparr>iface = i, enumerator = Some p, batch = [], current_index = 0, is_end = True\<rparr>"



section \<open>Concrete inputs\<close>

text \<open>
  A platform for running the converters: wide characters narrowed one by one, \<open>Attach\<close>
  as ATL has it (it throws on a null array and on an element type other than the
  wrapper's), and a cast to the numeric types that succeeds on a 32-bit integer variant
  and throws \<open>_com_error\<close> otherwise.
\<close>

definition narrow :: "wchar list \<Rightarrow> string" where
  "narrow ws = map (\<lambda>w. char_of (unat w)) ws"

definition atl_Attach :: "SAFEARRAY option \<Rightarrow> exn + BSTR list" where
  "atl_Attach psa =
     (case psa of
        None \<Rightarrow> Inl (other_exception E_INVALIDARG)
      | Some sa \<Rightarrow>
          if sa_vt sa = VT_BSTR then Inr (pvData sa) else Inl (other_exception E_INVALIDARG))"

datatype cpp_type = T_long | T_bool

definition sample_cast :: "cpp_type \<Rightarrow> CComVariant \<Rightarrow> exn + int" where
  "sample_cast T variant =
     (if vt variant = VT_I4 then Inr 0 else Inl (com_error DISP_E_TYPEMISMATCH))"

definition sample_support :: "(cpp_type, int) com_support" where
  "sample_support =
     \<lparr>ConvertBSTRToString = narrow, Attach = atl_Attach, static_cast = sample_cast\<rparr>"

definition throwing_runtime_error :: "(cpp_type, int) com_support" where
  "throwing_runtime_error =
     \<lparr>ConvertBSTRToString = narrow, Attach = atl_Attach,
      static_cast = (\<lambda>T variant. Inl (std_exception ''bad cast''))\<rparr>"

definition throwing_unknown :: "(cpp_type, int) com_support" where
  "throwing_unknown =
     \<lparr>ConvertBSTRToString = narrow, Attach = atl_Attach,
      static_cast = (\<lambda>T variant. Inl (other_exception E_INVALIDARG))\<rparr>"

definition bstr_variant :: "wchar list \<Rightarrow> CComVariant" where
  "bstr_variant ws = \<lparr>vt = VT_BSTR, bstrVal = Some ws, parray = None\<rparr>"

definition null_bstr_variant :: CComVariant where
  "null_bstr_variant = \<lparr>vt = VT_BSTR, bstrVal = None, parray = None\<rparr>"

definition long_variant :: CComVariant where
  "long_variant = \<lparr>vt = VT_I4, bstrVal = None, parray = None\<rparr>"

definition bstr_array_variant :: "SAFEARRAY option \<Rightarrow> CComVariant" where
  "bstr_array_variant psa = \<lparr>vt = VT_ARRAY OR VT_BSTR, bstrVal = None, parray = psa\<rparr>"

definition text_1024 :: "wchar list" where
  "text_1024 = [0x31, 0x30, 0x32, 0x34]"

definition a_null_b :: SAFEARRAY where
  "a_null_b = \<lparr>sa_vt = VT_BSTR, pvData = [Some [0x61], None, Some [0x62]]\<rparr>"

text \<open>
  A record of \<open>Win32_LogicalDisk\<close> that has the property \<open>DeviceID\<close> with the value
  \<open>C:\<close> and no other property.
\<close>

definition DeviceID :: "wchar list" where
  "DeviceID = [0x44, 0x65, 0x76, 0x69, 0x63, 0x65, 0x49, 0x44]"

definition NoSuchField :: "wchar list" where
  "NoSuchField = [0x4E, 0x6F, 0x53, 0x75, 0x63, 0x68, 0x46, 0x69, 0x65, 0x6C, 0x64]"

definition logical_disk_Get :: "unit IWbemClassObject_Get" where
  "logical_disk_Get h name =
     (if name = DeviceID then (WBEM_S_NO_ERROR, bstr_variant [0x43, 0x3A])
      else (WBEM_E_NOT_FOUND, \<lparr>vt = 0, bstrVal = None, parray = None\<rparr>))"

definition logical_disk :: "(string, unit) Object" where
  "logical_disk = \<lparr>obj_iface = ''cimv2'', obj_object = ()\<rparr>"

text \<open>
  Stores of cursors: one where every address holds a cursor over the same records, and
  one with different records at address 0 and elsewhere. A cursor whose \<open>Next\<close> always
  fails. Query results over address 0, over address 1 and over no cursor.
\<close>

definition one_cursor :: "'h list \<Rightarrow> 'h cursor remote" where
  "one_cursor xs = (\<lambda>a. \<lparr>records = xs, position = 0\<rparr>)"

definition two_cursors :: "'h list \<Rightarrow> 'h list \<Rightarrow> 'h cursor remote" where
  "two_cursors xs ys =
     (\<lambda>a. if a = 0 then \<lparr>records = xs, position = 0\<rparr> else \<lparr>records = ys, position = 0\<rparr>)"

definition failing_enumerator :: "('h cursor, 'h) IEnumWbemClassObject" where
  "failing_enumerator =
     \<lparr>Next = (\<lambda>c timeout count. (WBEM_E_FAILED, [], c)), Reset = cursor_Reset\<rparr>"

definition eleven :: "int list" where
  "eleven = [1, 2, 3, 4, 5, 6, 7, 8, 9, 10, 11]"

definition result_at_0 :: "string QueryResult" where
  "result_at_0 = \<lparr>qr_iface = ''cimv2'', qr_enumerator = Some 0\<rparr>"

definition result_at_1 :: "string QueryResult" where
  "result_at_1 = \<lparr>qr_iface = ''cimv2'', qr_enumerator = Some 1\<rparr>"

definition null_result :: "string QueryResult" where
  "null_result = \<lparr>qr_iface = ''cimv2'', qr_enumerator = None\<rparr>"

section \<open>Properties of the Value Converter\<close>

lemma FAILED_codes [simp]:
  "\<not> FAILED WBEM_S_NO_ERROR" "\<not> FAILED WBEM_S_FALSE"
  "FAILED WBEM_E_FAILED" "FAILED WBEM_E_NOT_FOUND"
  by (simp_all add: FAILED_def WBEM_S_NO_ERROR_def WBEM_S_FALSE_def WBEM_E_FAILED_def
      WBEM_E_NOT_FOUND_def)

lemma tag_distinct [simp]:
  "VT_I4 \<noteq> VT_BSTR" "VT_BSTR \<noteq> VT_I4" "VT_BSTR \<noteq> (VT_ARRAY OR VT_BSTR)"
  "VT_I4 \<noteq> (VT_ARRAY OR VT_BSTR)"
  by (simp_all add: VT_I4_def VT_BSTR_def VT_ARRAY_def)

lemma narrow_samples:
  "narrow text_1024 = ''1024''" "narrow [0x61] = ''a''" "narrow [0x62] = ''b''"
  "narrow [0x43, 0x3A] = ''C:''"
  by (code_simp, code_simp, code_simp, code_simp)

lemma names_distinct: "NoSuchField \<noteq> DeviceID"
  by (simp add: NoSuchField_def DeviceID_def)

lemma emplace_loop_from:
  "count = length safe_array \<Longrightarrow> i \<le> count \<Longrightarrow>
   emplace_loop S safe_array i count result
     = Inr (result @ decoded_non_null S (drop i safe_array))"
proof (induction S safe_array i count result rule: emplace_loop.induct)
  case (1 S safe_array i count result)
  show ?case
  proof (cases "i < count")
    case False
    with 1(3,4) show ?thesis
      by (subst emplace_loop.simps) (simp add: decoded_non_null_def)
  next
    case True
    with 1(3) have d: "drop i safe_array = safe_array ! i # drop (Suc i) safe_array"
      by (simp add: Cons_nth_drop_Suc)
    have g: "GetAt safe_array i = Inr (safe_array ! i)"
      using True 1(3) by (simp add: GetAt_def)
    show ?thesis
    proof (cases "safe_array ! i")
      case None
      with True g 1(1)[OF True g None 1(3)] 1(3) d show ?thesis
        by (subst emplace_loop.simps) (simp add: decoded_non_null_def)
    next
      case (Some bstr)
      with True g 1(2)[OF True g Some 1(3)] 1(3) d show ?thesis
        by (subst emplace_loop.simps) (simp add: decoded_non_null_def)
    qed
  qed
qed

lemma emplace_loop_all:
  "emplace_loop S safe_array 0 (GetCount safe_array) [] = Inr (decoded_non_null S safe_array)"
  by (simp add: emplace_loop_from GetCount_def)

text \<open>
  C5. Converting a value to the string type gives the decoded text exactly when the tag
  is \<open>VT_BSTR\<close> and the \<open>BSTR\<close> is not null; in every other case it gives the empty
  optional. Through \<open>ConvertVariant<std::string>\<close> the outcome is a returned optional,
  never an exception, and nothing is written to \<open>std::cerr\<close>.
\<close>

theorem string_conversion:
  "((\<exists>text. ConvertVariant_string S v = Some text) \<longleftrightarrow>
      (vt v = VT_BSTR \<and> bstrVal v \<noteq> None))
   \<and> (\<forall>ws. vt v = VT_BSTR \<and> bstrVal v = Some ws \<longrightarrow>
         ConvertVariant_string S v = Some (ConvertBSTRToString S ws))
   \<and> (vt v \<noteq> VT_BSTR \<or> bstrVal v = None \<longrightarrow> ConvertVariant_string S v = None)
   \<and> ConvertBstrToString S v = ConvertVariant_string S v
   \<and> ConvertVariant_T S T_string v = Inr ([], map_option as_string (ConvertVariant_string S v))"
  by (auto simp: ConvertVariant_string_def ConvertBstrToString_def)

theorem string_conversion_witness:
  "ConvertVariant_string sample_support (bstr_variant text_1024) = Some ''1024''
   \<and> ConvertVariant_string sample_support null_bstr_variant = None
   \<and> ConvertVariant_string sample_support long_variant = None
   \<and> ConvertVariant_T sample_support T_string (bstr_variant text_1024)
       = Inr ([], Some (as_string ''1024''))"
  using string_conversion [of sample_support "bstr_variant text_1024"]
    string_conversion [of sample_support null_bstr_variant]
    string_conversion [of sample_support long_variant]
  by (simp add: bstr_variant_def null_bstr_variant_def long_variant_def sample_support_def
      narrow_samples)

text \<open>
  C6. Converting a value to a sequence of strings gives the empty optional unless the tag
  is \<open>VT_ARRAY | VT_BSTR\<close>. With that tag, an exception thrown by \<open>Attach\<close> is caught
  and gives the empty optional; when \<open>Attach\<close> succeeds the result is the non-null
  elements, decoded, in their original order. No exception leaves the converter.
\<close>

theorem string_vector_conversion:
  "(vt v \<noteq> (VT_ARRAY OR VT_BSTR) \<longrightarrow> ConvertVariant_string_vector S v = Inr None)
   \<and> (\<forall>e. vt v = (VT_ARRAY OR VT_BSTR) \<and> Attach S (parray v) = Inl e \<longrightarrow>
         ConvertVariant_string_vector S v = Inr None)
   \<and> (\<forall>elements. vt v = (VT_ARRAY OR VT_BSTR) \<and> Attach S (parray v) = Inr elements \<longrightarrow>
         ConvertVariant_string_vector S v = Inr (Some (decoded_non_null S elements))
         \<and> length (decoded_non_null S elements) = length (filter (\<lambda>b. b \<noteq> None) elements))
   \<and> (\<forall>e. ConvertVariant_string_vector S v \<noteq> Inl e)"
proof -
  have len: "length (decoded_non_null S elements) = length (filter (\<lambda>b. b \<noteq> None) elements)"
    for elements
    by (induction elements) (auto simp: decoded_non_null_def List.map_filter_simps split: option.splits)
  show ?thesis
    by (cases "Attach S (parray v)")
       (simp_all add: ConvertVariant_string_vector_def emplace_loop_all len)
qed

theorem string_vector_conversion_witness:
  "ConvertVariant_string_vector sample_support (bstr_array_variant (Some a_null_b))
     = Inr (Some [''a'', ''b''])
   \<and> ConvertVariant_string_vector sample_support (bstr_array_variant None) = Inr None
   \<and> ConvertVariant_string_vector sample_support (bstr_variant text_1024) = Inr None"
  using string_vector_conversion [of "bstr_array_variant (Some a_null_b)" sample_support]
    string_vector_conversion [of "bstr_array_variant None" sample_support]
    string_vector_conversion [of "bstr_variant text_1024" sample_support]
  by (simp add: bstr_array_variant_def bstr_variant_def a_null_b_def sample_support_def
      atl_Attach_def decoded_non_null_def narrow_samples)

text \<open>
  C7. The generic converter returns the result of the cast when the cast succeeds. When
  the cast throws, whichever of the three kinds the exception is, a handler catches it,
  writes one line to \<open>std::cerr\<close> and returns the empty optional. No exception leaves
  the converter.
\<close>

theorem generic_conversion_never_throws:
  "(\<forall>x. static_cast S T v = Inr x \<longrightarrow> ConvertVariant S T v = Inr ([], Some x))
   \<and> (\<forall>hr. static_cast S T v = Inl (com_error hr) \<longrightarrow>
         ConvertVariant S T v = Inr ([cerr_com_error hr], None))
   \<and> (\<forall>what. static_cast S T v = Inl (std_exception what) \<longrightarrow>
         ConvertVariant S T v = Inr ([cerr_std_error what], None))
   \<and> (\<forall>hr. static_cast S T v = Inl (other_exception hr) \<longrightarrow>
         ConvertVariant S T v = Inr ([cerr_unknown_error], None))
   \<and> (\<forall>e. ConvertVariant S T v \<noteq> Inl e)
   \<and> (\<forall>e. ConvertVariant_T S (T_other T) v \<noteq> Inl e)"
proof -
  have "\<forall>e. ConvertVariant S T v \<noteq> Inl e"
  proof (cases "static_cast S T v")
    case (Inl e)
    then show ?thesis by (cases e) (simp_all add: ConvertVariant_def)
  next
    case (Inr x)
    then show ?thesis by (simp add: ConvertVariant_def)
  qed
  moreover from this have "\<forall>e. ConvertVariant_T S (T_other T) v \<noteq> Inl e"
    by (cases "ConvertVariant S T v") auto
  ultimately show ?thesis
    by (simp add: ConvertVariant_def)
qed

theorem generic_conversion_never_throws_witness:
  "ConvertVariant sample_support T_long long_variant = Inr ([], Some 0)
   \<and> ConvertVariant sample_support T_long (bstr_variant text_1024)
       = Inr ([cerr_com_error DISP_E_TYPEMISMATCH], None)
   \<and> ConvertVariant throwing_runtime_error T_bool long_variant
       = Inr ([cerr_std_error ''bad cast''], None)
   \<and> ConvertVariant throwing_unknown T_bool long_variant = Inr ([cerr_unknown_error], None)"
  using generic_conversion_never_throws [of sample_support T_long long_variant]
    generic_conversion_never_throws [of sample_support T_long "bstr_variant text_1024"]
    generic_conversion_never_throws [of throwing_runtime_error T_bool long_variant]
    generic_conversion_never_throws [of throwing_unknown T_bool long_variant]
  by (simp add: sample_support_def throwing_runtime_error_def throwing_unknown_def
      sample_cast_def long_variant_def bstr_variant_def)

section \<open>Properties of the Property Object\<close>

text \<open>
  C4. When the remote lookup fails, \<open>GetProperty<T>\<close> returns the empty optional for
  every target type \<open>T\<close>, \<open>variant_t\<close> included. When the lookup succeeds,
  \<open>GetProperty<variant_t>\<close> returns the variant that the lookup filled in.
\<close>

theorem GetProperty_lookup:
  "(FAILED (fst (Get (obj_object obj) name)) \<longrightarrow>
      (\<forall>T. GetProperty S Get obj T name = Inr ([], None)))
   \<and> (\<not> FAILED (fst (Get (obj_object obj) name)) \<longrightarrow>
        GetProperty S Get obj T_variant_t name
          = Inr ([], Some (as_variant_t (snd (Get (obj_object obj) name)))))"
  by (simp add: GetProperty_def split_beta)

theorem GetProperty_lookup_witness:
  "FAILED (fst (logical_disk_Get (obj_object logical_disk) NoSuchField))
   \<and> GetProperty sample_support logical_disk_Get logical_disk T_variant_t NoSuchField
       = Inr ([], None)
   \<and> GetProperty sample_support logical_disk_Get logical_disk T_string NoSuchField
       = Inr ([], None)
   \<and> GetProperty sample_support logical_disk_Get logical_disk T_string_vector NoSuchField
       = Inr ([], None)
   \<and> GetProperty sample_support logical_disk_Get logical_disk (T_other T_long) NoSuchField
       = Inr ([], None)
   \<and> \<not> FAILED (fst (logical_disk_Get (obj_object logical_disk) DeviceID))
   \<and> GetProperty sample_support logical_disk_Get logical_disk T_variant_t DeviceID
       = Inr ([], Some (as_variant_t (bstr_variant [0x43, 0x3A])))"
  using GetProperty_lookup [of logical_disk_Get logical_disk NoSuchField sample_support]
    GetProperty_lookup [of logical_disk_Get logical_disk DeviceID sample_support]
  by (simp add: logical_disk_Get_def names_distinct)


section \<open>A pass over a cursor with a fixed backing store\<close>

text \<open>
  The lemmas of this section hold for every enumerator whose \<open>Next\<close> is that of the
  cursor over a list, whatever its \<open>Reset\<close> does.
\<close>

lemma store_Next: "Next store_enumerator = cursor_Next"
  by (simp add: store_enumerator_def)

lemma forward_only_Next: "Next forward_only_enumerator = cursor_Next"
  by (simp add: forward_only_enumerator_def)

lemma forward_only_Reset_keeps: "snd (Reset forward_only_enumerator c) = c"
  by (simp add: forward_only_enumerator_def forward_only_Reset_def)

lemma fetch_more:
  assumes "Next E = cursor_Next"
    and "q < length xs" "1 \<le> B" "enumerator it = Some p" "iface it = i" "\<not> is_end it"
  shows "FetchNextBatch E B (\<sigma>(p := at_position xs q)) it
         = (\<sigma>(p := at_position xs (q + min B (length xs - q))),
            active_at i p xs (q + min B (length xs - q)) (min B (length xs - q)) 0)"
proof -
  obtain b c where it:
    "it = \<lparr>iface = i, enumerator = Some p, batch = b, current_index = c, is_end = False\<rparr>"
    using assms(4-6) by (cases it) auto
  show ?thesis using assms(2,3)
    by (simp add: it FetchNextBatch_def assms(1) cursor_Next_def at_position_def
        active_at_def Let_def wrap_def min_def)
qed

lemma fetch_done:
  assumes "Next E = cursor_Next" and "enumerator it = Some p" "iface it = i"
  shows "FetchNextBatch E B (\<sigma>(p := at_position xs (length xs))) it
         = (\<sigma>(p := at_position xs (length xs)), exhausted_at i p)"
proof -
  obtain b c e where it:
    "it = \<lparr>iface = i, enumerator = Some p, batch = b, current_index = c, is_end = e\<rparr>"
    using assms(2,3) by (cases it) auto
  show ?thesis
    by (simp add: it FetchNextBatch_def assms(1) cursor_Next_def at_position_def
        exhausted_at_def Let_def)
qed

lemma active_simps [simp]:
  "enumerator (active_at i p xs q m j) = Some p"
  "iface (active_at i p xs q m j) = i"
  "\<not> is_end (active_at i p xs q m j)"
  "current_index (active_at i p xs q m j) = j"
  "m \<le> q \<Longrightarrow> q \<le> length xs \<Longrightarrow> length (batch (active_at i p xs q m j)) = m"
  by (simp_all add: active_at_def)

lemma exhausted_simps [simp]:
  "is_end (exhausted_at i p)"
  by (simp add: exhausted_at_def)

lemma star_active:
  assumes "m \<le> q" "q \<le> length xs" "j < m"
  shows "operator_star (active_at i p xs q m j) = Some (wrap i (xs ! (q - m + j)))"
  using assms by (simp add: operator_star_def) (simp add: active_at_def)

lemma incr_within:
  assumes "m \<le> q" "q \<le> length xs" "j + 1 < m"
  shows "operator_preincrement E B \<sigma> (active_at i p xs q m j)
         = (\<sigma>, active_at i p xs q m (j + 1))"
  using assms by (simp add: operator_preincrement_def Let_def) (simp add: active_at_def)

lemma incr_fetch:
  assumes "Next E = cursor_Next" and "m \<le> q" "q < length xs" "j + 1 = m" "1 \<le> B"
  shows "operator_preincrement E B (\<sigma>(p := at_position xs q)) (active_at i p xs q m j)
         = (\<sigma>(p := at_position xs (q + min B (length xs - q))),
            active_at i p xs (q + min B (length xs - q)) (min B (length xs - q)) 0)"
  using assms(2-5) by (simp add: operator_preincrement_def Let_def fetch_more [OF assms(1)])

lemma incr_last:
  assumes "Next E = cursor_Next" and "m \<le> length xs" "j + 1 = m"
  shows "operator_preincrement E B (\<sigma>(p := at_position xs (length xs)))
           (active_at i p xs (length xs) m j)
         = (\<sigma>(p := at_position xs (length xs)), exhausted_at i p)"
  using assms(2,3) by (simp add: operator_preincrement_def Let_def fetch_done [OF assms(1)])

lemma iterate_exhausted:
  assumes "is_end it" "is_end e"
  shows "iterate E B \<sigma> it e acc = Some (\<sigma>, Inr acc)"
  using assms by (subst iterate.simps) (simp add: operator_ne_def operator_eq_def)

lemma iterate_active:
  assumes nx: "Next E = cursor_Next" and "1 \<le> B" "is_end e"
  shows "m \<le> q \<Longrightarrow> q \<le> length xs \<Longrightarrow> j < m \<Longrightarrow>
         iterate E B (\<sigma>(p := at_position xs q)) (active_at i p xs q m j) e acc
         = Some (\<sigma>(p := at_position xs (length xs)),
                 Inr (acc @ map (wrap i) (drop (q - m + j) xs)))"
proof (induction "length xs - (q - m + j)" arbitrary: q m j acc rule: less_induct)
  case less
  let ?k = "q - m + j"
  have k: "?k < length xs" using less.prems by simp
  have ne: "operator_ne (active_at i p xs q m j) e"
    using assms(3) by (simp add: operator_ne_def operator_eq_def)
  have star: "operator_star (active_at i p xs q m j) = Some (wrap i (xs ! ?k))"
    using less.prems by (rule star_active)
  have dr: "drop ?k xs = xs ! ?k # drop (Suc ?k) xs"
    using k by (simp add: Cons_nth_drop_Suc)
  consider (within) "j + 1 < m" | (fetch) "j + 1 = m" "q < length xs"
    | (last) "j + 1 = m" "q = length xs"
    using less.prems by linarith
  then show ?case
  proof cases
    case within
    have "iterate E B (\<sigma>(p := at_position xs q))
            (active_at i p xs q m (j + 1)) e (acc @ [wrap i (xs ! ?k)])
          = Some (\<sigma>(p := at_position xs (length xs)),
                  Inr ((acc @ [wrap i (xs ! ?k)]) @ map (wrap i) (drop (q - m + (j + 1)) xs)))"
      using less.prems within by (intro less.hyps) simp_all
    then show ?thesis
      using ne star dr
      by (subst iterate.simps) (simp add: incr_within [OF less.prems(1,2) within])
  next
    case fetch
    let ?m' = "min B (length xs - q)"
    have m': "0 < ?m'" using fetch assms(2) by simp
    have "iterate E B (\<sigma>(p := at_position xs (q + ?m')))
            (active_at i p xs (q + ?m') ?m' 0) e (acc @ [wrap i (xs ! ?k)])
          = Some (\<sigma>(p := at_position xs (length xs)),
                  Inr ((acc @ [wrap i (xs ! ?k)]) @ map (wrap i) (drop (q + ?m' - ?m' + 0) xs)))"
      using less.prems fetch m' by (intro less.hyps) simp_all
    moreover have "Suc ?k = q" using fetch less.prems by simp
    ultimately show ?thesis
      using ne star dr
      by (subst iterate.simps)
         (simp add: incr_fetch [OF nx less.prems(1) fetch(2,1) assms(2)])
  next
    case last
    have fin: "iterate E B (\<sigma>(p := at_position xs (length xs)))
                 (exhausted_at i p) e (acc @ [wrap i (xs ! ?k)])
               = Some (\<sigma>(p := at_position xs (length xs)), Inr (acc @ [wrap i (xs ! ?k)]))"
      using assms(3) by (simp add: iterate_exhausted)
    have "Suc ?k = length xs" using last less.prems by simp
    then have "drop ?k xs = [xs ! ?k]" using dr by simp
    then show ?thesis
      using ne star less.prems last fin
      by (subst iterate.simps) (simp add: incr_last [OF nx, of m xs j])
  qed
qed

lemma reset_cursor:
  "records c = xs \<Longrightarrow> snd (cursor_Reset c) = at_position xs 0"
  by (cases c) (simp add: cursor_Reset_def at_position_def)

lemma end_sentinel:
  "QueryResult_end E B \<sigma> qr
   = (\<sigma>, \<lparr>iface = qr_iface qr, enumerator = None, batch = [], current_index = 0,
          is_end = True\<rparr>)"
  by (simp add: QueryResult_end_def Iterator_ctor_def)

text \<open>
  \<open>begin()\<close> when \<open>Reset\<close> leaves the cursor at position \<open>r\<close> of the records \<open>xs\<close>.
\<close>

lemma begin_from:
  assumes nx: "Next E = cursor_Next"
    and "qr_enumerator qr = Some p" "snd (Reset E (\<sigma> p)) = at_position xs r"
    and "r \<le> length xs" "1 \<le> B"
  shows "QueryResult_begin E B \<sigma> qr
         = (if r = length xs then (\<sigma>(p := at_position xs r), exhausted_at (qr_iface qr) p)
            else (\<sigma>(p := at_position xs (r + min B (length xs - r))),
                  active_at (qr_iface qr) p xs (r + min B (length xs - r))
                    (min B (length xs - r)) 0))"
proof -
  let ?it = "\<lparr>iface = qr_iface qr, enumerator = Some p, batch = [], current_index = 0,
              is_end = False\<rparr>"
  have b: "QueryResult_begin E B \<sigma> qr = FetchNextBatch E B (\<sigma>(p := at_position xs r)) ?it"
    using assms(2,3) by (simp add: QueryResult_begin_def Iterator_ctor_def)
  show ?thesis
  proof (cases "r = length xs")
    case True
    then show ?thesis
      using fetch_done [OF nx, of ?it p "qr_iface qr" B \<sigma> xs] by (simp add: b)
  next
    case False
    then have "r < length xs" using assms(4) by simp
    then show ?thesis
      using fetch_more [OF nx, of r xs B ?it p "qr_iface qr" \<sigma>] assms(5) False
      by (simp add: b)
  qed
qed

lemma range_for_from:
  assumes nx: "Next E = cursor_Next"
    and "1 \<le> B" "qr_enumerator qr = Some p" "snd (Reset E (\<sigma> p)) = at_position xs r"
    and "r \<le> length xs"
  shows "range_for E B \<sigma> qr
         = Some (\<sigma>(p := at_position xs (length xs)),
                 Inr (map (wrap (qr_iface qr)) (drop r xs)))"
proof (cases "r = length xs")
  case True
  then show ?thesis
    using begin_from [of E qr p \<sigma> xs r B] assms
    by (simp add: range_for_def end_sentinel iterate_exhausted)
next
  case False
  let ?m = "min B (length xs - r)"
  have m: "0 < ?m" "?m \<le> r + ?m" "r + ?m \<le> length xs"
    using False assms(2,5) by simp_all
  have "iterate E B (\<sigma>(p := at_position xs (r + ?m)))
          (active_at (qr_iface qr) p xs (r + ?m) ?m 0) (snd (QueryResult_end E B \<sigma> qr)) []
        = Some (\<sigma>(p := at_position xs (length xs)),
                Inr ([] @ map (wrap (qr_iface qr)) (drop (r + ?m - ?m + 0) xs)))"
    using m by (intro iterate_active [OF nx assms(2)]) (simp_all add: end_sentinel)
  then show ?thesis
    using False begin_from [of E qr p \<sigma> xs r B] assms
    by (simp add: range_for_def end_sentinel)
qed

lemma advance_exhausted:
  "is_end it \<Longrightarrow> advance E B n (\<sigma>, it) = (\<sigma>, it)"
  by (induction n) (simp_all add: operator_preincrement_def)

lemma advance_active:
  assumes nx: "Next E = cursor_Next" and "1 \<le> B"
  shows "m \<le> q \<Longrightarrow> q \<le> length xs \<Longrightarrow> j < m \<Longrightarrow>
         (\<exists>q'. fst (advance E B n (\<sigma>(p := at_position xs q), active_at i p xs q m j))
                = \<sigma>(p := at_position xs q'))
         \<and> (is_end (snd (advance E B n (\<sigma>(p := at_position xs q), active_at i p xs q m j)))
              \<longleftrightarrow> length xs \<le> q - m + j + n)"
proof (induction n arbitrary: q m j)
  case 0
  then show ?case by auto
next
  case (Suc n)
  consider (within) "j + 1 < m" | (fetch) "j + 1 = m" "q < length xs"
    | (last) "j + 1 = m" "q = length xs"
    using Suc.prems by linarith
  then show ?case
  proof cases
    case within
    have step: "operator_preincrement E B (\<sigma>(p := at_position xs q))
                  (active_at i p xs q m j)
                = (\<sigma>(p := at_position xs q), active_at i p xs q m (j + 1))"
      using Suc.prems(1,2) within by (rule incr_within)
    show ?thesis
      using Suc.IH [of m q "j + 1"] Suc.prems within
      by (simp add: step del: fun_upd_apply)
  next
    case fetch
    let ?m' = "min B (length xs - q)"
    have m': "0 < ?m'" "?m' \<le> q + ?m'" "q + ?m' \<le> length xs"
      using fetch assms(2) by simp_all
    have step: "operator_preincrement E B (\<sigma>(p := at_position xs q))
                  (active_at i p xs q m j)
                = (\<sigma>(p := at_position xs (q + ?m')), active_at i p xs (q + ?m') ?m' 0)"
      using nx Suc.prems(1) fetch(2,1) assms(2) by (rule incr_fetch)
    have k: "q - m + j + Suc n = q + ?m' - ?m' + 0 + n"
      using fetch Suc.prems by simp
    show ?thesis
      unfolding advance.simps fst_conv snd_conv step k
      by (rule Suc.IH [OF m'(2,3,1)])
  next
    case last
    have step: "operator_preincrement E B (\<sigma>(p := at_position xs q))
                  (active_at i p xs q m j)
                = (\<sigma>(p := at_position xs (length xs)), exhausted_at i p)"
      using incr_last [OF nx, of m xs j B \<sigma> p i] Suc.prems last by simp
    show ?thesis
      unfolding advance.simps fst_conv snd_conv step
      using Suc.prems last by (auto simp: advance_exhausted simp del: fun_upd_apply)
  qed
qed

lemma advance_begin_from:
  assumes nx: "Next E = cursor_Next"
    and "1 \<le> B" "qr_enumerator qr = Some p" "snd (Reset E (\<sigma> p)) = at_position xs r"
    and "r \<le> length xs"
  shows "(\<exists>q'. fst (advance E B n (QueryResult_begin E B \<sigma> qr)) = \<sigma>(p := at_position xs q'))
         \<and> (is_end (snd (advance E B n (QueryResult_begin E B \<sigma> qr)))
              \<longleftrightarrow> length xs \<le> r + n)"
proof (cases "r = length xs")
  case True
  then show ?thesis
    using begin_from [of E qr p \<sigma> xs r B] assms by (auto simp: advance_exhausted)
next
  case False
  let ?m = "min B (length xs - r)"
  have m: "?m \<le> r + ?m" "r + ?m \<le> length xs" "0 < ?m"
    using False assms(2,5) by simp_all
  show ?thesis
    using advance_active [OF nx assms(2) m, of n \<sigma> p "qr_iface qr"] False
      begin_from [of E qr p \<sigma> xs r B] assms
    by simp
qed

text \<open>The conventional enumerator, whose \<open>Reset\<close> rewinds.\<close>

lemma begin_store:
  assumes "qr_enumerator qr = Some p" "records (\<sigma> p) = xs" "1 \<le> B"
  shows "QueryResult_begin store_enumerator B \<sigma> qr
         = (if xs = [] then (\<sigma>(p := at_position xs 0), exhausted_at (qr_iface qr) p)
            else (\<sigma>(p := at_position xs (min B (length xs))),
                  active_at (qr_iface qr) p xs (min B (length xs)) (min B (length xs)) 0))"
proof -
  have r: "snd (Reset store_enumerator (\<sigma> p)) = at_position xs 0"
    using assms(2) by (simp add: store_enumerator_def reset_cursor)
  show ?thesis
    using begin_from [OF store_Next, of qr p \<sigma> xs 0 B] assms(1,3) r
    by (cases "xs = []") auto
qed

lemma range_for_store:
  assumes "1 \<le> B" "qr_enumerator qr = Some p" "records (\<sigma> p) = xs"
  shows "range_for store_enumerator B \<sigma> qr
         = Some (\<sigma>(p := at_position xs (length xs)), Inr (map (wrap (qr_iface qr)) xs))"
proof -
  have r: "snd (Reset store_enumerator (\<sigma> p)) = at_position xs 0"
    using assms(3) by (simp add: store_enumerator_def reset_cursor)
  show ?thesis
    using range_for_from [OF store_Next, of B qr p \<sigma> xs 0] assms(1,2) r
    by simp
qed

lemma advance_begin_store:
  assumes "1 \<le> B" "qr_enumerator qr = Some p" "records (\<sigma> p) = xs"
  shows "(\<exists>q'. fst (advance store_enumerator B n (QueryResult_begin store_enumerator B \<sigma> qr))
                = \<sigma>(p := at_position xs q'))
         \<and> (is_end (snd (advance store_enumerator B n
                      (QueryResult_begin store_enumerator B \<sigma> qr)))
              \<longleftrightarrow> length xs \<le> n)"
proof -
  have r: "snd (Reset store_enumerator (\<sigma> p)) = at_position xs 0"
    using assms(3) by (simp add: store_enumerator_def reset_cursor)
  show ?thesis
    using advance_begin_from [OF store_Next, of B qr p \<sigma> xs 0 n] assms(1,2) r
    by simp
qed

text \<open>
  The forward-only enumerator, whose \<open>Reset\<close> fails. From a cursor that no pass has
  touched yet, a pass visits all the records, and the iterator of \<open>begin()\<close> is exhausted
  after \<open>k\<close> advances exactly when \<open>k\<close> is at least their number, as with the
  conventional enumerator.
\<close>

lemma fresh_forward_only_pass:
  assumes "1 \<le> B" "qr_enumerator qr = Some p" "\<sigma> p = at_position xs 0"
  shows "range_for forward_only_enumerator B \<sigma> qr
         = Some (\<sigma>(p := at_position xs (length xs)), Inr (map (wrap (qr_iface qr)) xs))"
    and "is_end (snd (advance forward_only_enumerator B k
                        (QueryResult_begin forward_only_enumerator B \<sigma> qr)))
         \<longleftrightarrow> length xs \<le> k"
proof -
  have r: "snd (Reset forward_only_enumerator (\<sigma> p)) = at_position xs 0"
    using assms(3) by (simp add: forward_only_Reset_keeps)
  show "range_for forward_only_enumerator B \<sigma> qr
         = Some (\<sigma>(p := at_position xs (length xs)), Inr (map (wrap (qr_iface qr)) xs))"
    using range_for_from [OF forward_only_Next, of B qr p \<sigma> xs 0] assms(1,2) r
    by simp
  show "is_end (snd (advance forward_only_enumerator B k
                        (QueryResult_begin forward_only_enumerator B \<sigma> qr)))
         \<longleftrightarrow> length xs \<le> k"
    using advance_begin_from [OF forward_only_Next, of B qr p \<sigma> xs 0 k] assms(1,2) r
    by simp
qed

section \<open>Properties of the Batch Iterator and the Query Result\<close>

lemma length_eleven: "length eleven = 11"
  by (simp add: eleven_def)

text \<open>
  C1. For every request size \<open>B \<ge> 1\<close> and every backing store \<open>xs\<close> of \<open>N\<close> records,
  the range-based \<open>for\<close> over a query result ends and visits exactly the \<open>N\<close> records
  of \<open>xs\<close>, each wrapped with the result's interface, in the cursor's order, wherever the
  cursor stood before. The right-hand side does not mention \<open>B\<close>: the request size
  changes neither the number nor the order of the objects visited.
\<close>

theorem iteration_yields_all_records:
  assumes "1 \<le> B" and "qr_enumerator qr = Some p" and "records (\<sigma> p) = xs"
  shows "range_for store_enumerator B \<sigma> qr
         = Some (\<sigma>(p := \<lparr>records = xs, position = length xs\<rparr>),
                 Inr (map (wrap (qr_iface qr)) xs))
         \<and> length (map (wrap (qr_iface qr)) xs) = length xs"
  using assms range_for_store [of B qr p \<sigma> xs] by (simp add: at_position_def)

theorem iteration_yields_all_records_witness:
  "1 \<le> BATCH_SIZE \<and> qr_enumerator result_at_0 = Some 0
   \<and> records (one_cursor eleven 0) = eleven
   \<and> range_for store_enumerator BATCH_SIZE (one_cursor eleven) result_at_0
       = Some ((one_cursor eleven)(0 := \<lparr>records = eleven, position = 11\<rparr>),
               Inr (map (wrap ''cimv2'') eleven))
   \<and> range_for store_enumerator 3 (one_cursor eleven) result_at_0
       = Some ((one_cursor eleven)(0 := \<lparr>records = eleven, position = 11\<rparr>),
               Inr (map (wrap ''cimv2'') eleven))"
  using iteration_yields_all_records [of BATCH_SIZE result_at_0 0 "one_cursor eleven" eleven]
    iteration_yields_all_records [of 3 result_at_0 0 "one_cursor eleven" eleven]
  by (simp add: BATCH_SIZE_def result_at_0_def one_cursor_def length_eleven)

text \<open>
  C2, as the code has it. \<open>a == b\<close> holds exactly when the two end-of-sequence flags
  agree. So two exhausted iterators are equal, an iterator that is not exhausted is never
  equal to an exhausted one, in particular not to the sentinel of \<open>end()\<close>, and two
  iterators that are both not exhausted are always equal. \<open>!=\<close> is the negation.
\<close>

theorem equality_compares_flags:
  "(operator_eq a b \<longleftrightarrow> (is_end a \<longleftrightarrow> is_end b))
   \<and> (is_end a \<and> is_end b \<longrightarrow> operator_eq a b)
   \<and> (\<not> is_end a \<and> is_end b \<longrightarrow> \<not> operator_eq a b \<and> \<not> operator_eq b a)
   \<and> (\<not> is_end a \<and> \<not> is_end b \<longrightarrow> operator_eq a b)
   \<and> (operator_eq a (snd (QueryResult_end E B \<sigma> qr)) \<longleftrightarrow> is_end a)
   \<and> (operator_ne a b \<longleftrightarrow> \<not> operator_eq a b)"
  by (auto simp: operator_eq_def operator_ne_def end_sentinel)

theorem equality_compares_flags_witness:
  "\<not> is_end (active_at ''cimv2'' 0 eleven 10 10 0)
   \<and> is_end (snd (QueryResult_end store_enumerator BATCH_SIZE (one_cursor eleven) result_at_0))
   \<and> \<not> operator_eq (active_at ''cimv2'' 0 eleven 10 10 0)
         (snd (QueryResult_end store_enumerator BATCH_SIZE (one_cursor eleven) result_at_0))
   \<and> operator_eq (snd (QueryResult_end store_enumerator BATCH_SIZE (one_cursor eleven) result_at_0))
         (snd (QueryResult_end store_enumerator BATCH_SIZE (one_cursor eleven) result_at_1))
   \<and> operator_eq (active_at ''cimv2'' 0 eleven 10 10 0) (active_at ''cimv2'' 1 eleven 10 10 3)"
  using equality_compares_flags [of "active_at ''cimv2'' 0 eleven 10 10 0"
      "snd (QueryResult_end store_enumerator BATCH_SIZE (one_cursor eleven) result_at_0)"
      store_enumerator BATCH_SIZE "one_cursor eleven" result_at_0]
    equality_compares_flags [of
      "snd (QueryResult_end store_enumerator BATCH_SIZE (one_cursor eleven) result_at_0)"
      "snd (QueryResult_end store_enumerator BATCH_SIZE (one_cursor eleven) result_at_1)"
      store_enumerator BATCH_SIZE "one_cursor eleven" result_at_0]
    equality_compares_flags [of "active_at ''cimv2'' 0 eleven 10 10 0"
      "active_at ''cimv2'' 1 eleven 10 10 3"
      store_enumerator BATCH_SIZE "one_cursor eleven" result_at_0]
  by (simp add: end_sentinel)

text \<open>
  Against C2 as written: the iterators that \<open>begin()\<close> gives for two query results over
  different cursors, one over the record 1 and one over the record 2, are both not
  exhausted and compare equal.
\<close>

theorem non_exhausted_iterators_are_equal:
  "operator_eq
     (snd (QueryResult_begin store_enumerator BATCH_SIZE (two_cursors [1 :: int] [2]) result_at_0))
     (snd (QueryResult_begin store_enumerator BATCH_SIZE (two_cursors [1 :: int] [2]) result_at_1))
   \<and> \<not> is_end
         (snd (QueryResult_begin store_enumerator BATCH_SIZE (two_cursors [1 :: int] [2]) result_at_0))
   \<and> \<not> is_end
         (snd (QueryResult_begin store_enumerator BATCH_SIZE (two_cursors [1 :: int] [2]) result_at_1))
   \<and> operator_star
         (snd (QueryResult_begin store_enumerator BATCH_SIZE (two_cursors [1 :: int] [2]) result_at_0))
       = Some (wrap ''cimv2'' 1)
   \<and> operator_star
         (snd (QueryResult_begin store_enumerator BATCH_SIZE (two_cursors [1 :: int] [2]) result_at_1))
       = Some (wrap ''cimv2'' 2)"
  by (simp add: begin_store [of _ _ _ "[1]"] begin_store [of _ _ _ "[2]"] result_at_0_def
      result_at_1_def two_cursors_def BATCH_SIZE_def operator_eq_def star_active)





text \<open>
  C8. A fetch whose status is a failure, or that returns no record, leaves the iterator
  with an empty batch, index 0 and the end-of-sequence flag set, whatever the status was:
  the iterator after a failed fetch is the iterator after a fetch at the natural end. The
  same holds when \<open>operator++\<close> triggers the fetch at the end of a batch. The consumer's
  loop then ends normally with what it has visited.
\<close>

theorem fetch_failure_is_end_of_sequence:
  fixes it :: "('i, 'h) Iterator"
  assumes "enumerator it = Some p"
    and "Next E (\<sigma> p) WBEM_INFINITE B = (hr, objects, e')"
    and "FAILED hr \<or> objects = []"
  shows "FetchNextBatch E B \<sigma> it
           = (\<sigma>(p := e'), it\<lparr>batch := [], current_index := 0, is_end := True\<rparr>)
         \<and> (\<not> is_end it \<and> length (batch it) \<le> current_index it + 1 \<longrightarrow>
              operator_preincrement E B \<sigma> it
                = (\<sigma>(p := e'), it\<lparr>batch := [], current_index := 0, is_end := True\<rparr>))
         \<and> (is_end end_it \<longrightarrow>
              iterate E B (\<sigma>(p := e')) (snd (FetchNextBatch E B \<sigma> it)) end_it visited
                = Some (\<sigma>(p := e'), Inr visited))"
proof -
  have fetch: "FetchNextBatch E B \<sigma> it'
           = (\<sigma>(p := e'), it'\<lparr>batch := [], current_index := 0, is_end := True\<rparr>)"
    if "enumerator it' = Some p" for it' :: "('i, 'h) Iterator"
    using that assms(2,3) by (auto simp: FetchNextBatch_def Let_def)
  have "operator_preincrement E B \<sigma> it
          = (\<sigma>(p := e'), it\<lparr>batch := [], current_index := 0, is_end := True\<rparr>)"
    if "\<not> is_end it" "length (batch it) \<le> current_index it + 1"
    using that assms(1) by (simp add: operator_preincrement_def Let_def fetch)
  then show ?thesis
    using assms(1) by (simp add: fetch iterate_exhausted)
qed

theorem fetch_failure_is_end_of_sequence_witness:
  "enumerator (active_at ''cimv2'' 0 eleven 10 10 9) = Some 0
   \<and> Next failing_enumerator (one_cursor eleven 0) WBEM_INFINITE BATCH_SIZE
       = (WBEM_E_FAILED, [], one_cursor eleven 0)
   \<and> FAILED WBEM_E_FAILED
   \<and> Next store_enumerator (((one_cursor eleven)(0 := at_position eleven 11)) 0)
         WBEM_INFINITE BATCH_SIZE
       = (WBEM_S_FALSE, [], at_position eleven 11)
   \<and> \<not> FAILED WBEM_S_FALSE
   \<and> \<not> is_end (active_at ''cimv2'' 0 eleven 10 10 9)
   \<and> length (batch (active_at ''cimv2'' 0 eleven 10 10 9))
       \<le> current_index (active_at ''cimv2'' 0 eleven 10 10 9) + 1
   \<and> is_end (exhausted_at ''cimv2'' 0)
   \<and> operator_preincrement failing_enumerator BATCH_SIZE (one_cursor eleven)
         (active_at ''cimv2'' 0 eleven 10 10 9)
       = ((one_cursor eleven)(0 := one_cursor eleven 0),
          (active_at ''cimv2'' 0 eleven 10 10 9)
            \<lparr>batch := [], current_index := 0, is_end := True\<rparr>)
   \<and> operator_preincrement store_enumerator BATCH_SIZE
         ((one_cursor eleven)(0 := at_position eleven 11))
         (active_at ''cimv2'' 0 eleven 10 10 9)
       = ((one_cursor eleven)(0 := at_position eleven 11, 0 := at_position eleven 11),
          (active_at ''cimv2'' 0 eleven 10 10 9)
            \<lparr>batch := [], current_index := 0, is_end := True\<rparr>)
   \<and> iterate failing_enumerator BATCH_SIZE ((one_cursor eleven)(0 := one_cursor eleven 0))
         (snd (FetchNextBatch failing_enumerator BATCH_SIZE (one_cursor eleven)
                (active_at ''cimv2'' 0 eleven 10 10 9)))
         (exhausted_at ''cimv2'' 0) [wrap ''cimv2'' 10]
       = Some ((one_cursor eleven)(0 := one_cursor eleven 0), Inr [wrap ''cimv2'' 10])"
proof -
  have it: "enumerator (active_at ''cimv2'' 0 eleven 10 10 9) = Some 0"
    "\<not> is_end (active_at ''cimv2'' 0 eleven 10 10 9)"
    "length (batch (active_at ''cimv2'' 0 eleven 10 10 9))
       \<le> current_index (active_at ''cimv2'' 0 eleven 10 10 9) + 1"
    "is_end (exhausted_at ''cimv2'' 0)"
    by (simp_all add: length_eleven)
  have failed: "Next failing_enumerator (one_cursor eleven 0) WBEM_INFINITE BATCH_SIZE
                = (WBEM_E_FAILED, [], one_cursor eleven 0)"
    "FAILED WBEM_E_FAILED \<or> ([] :: int list) = []"
    by (simp_all add: failing_enumerator_def)
  have ended: "Next store_enumerator (((one_cursor eleven)(0 := at_position eleven 11)) 0)
                 WBEM_INFINITE BATCH_SIZE
               = (WBEM_S_FALSE, [], at_position eleven 11)"
    "FAILED WBEM_S_FALSE \<or> ([] :: int list) = []"
    by (simp_all add: store_enumerator_def cursor_Next_def at_position_def BATCH_SIZE_def
        length_eleven)
  note failing = fetch_failure_is_end_of_sequence [of "active_at ''cimv2'' 0 eleven 10 10 9" 0
      failing_enumerator "one_cursor eleven" BATCH_SIZE WBEM_E_FAILED "[]"
      "one_cursor eleven 0" "exhausted_at ''cimv2'' 0" "[wrap ''cimv2'' 10]",
      OF it(1) failed]
  note ending = fetch_failure_is_end_of_sequence [of "active_at ''cimv2'' 0 eleven 10 10 9" 0
      store_enumerator "(one_cursor eleven)(0 := at_position eleven 11)" BATCH_SIZE
      WBEM_S_FALSE "[]" "at_position eleven 11" "exhausted_at ''cimv2'' 0"
      "[wrap ''cimv2'' 10]", OF it(1) ended]
  have incr_failing: "operator_preincrement failing_enumerator BATCH_SIZE (one_cursor eleven)
         (active_at ''cimv2'' 0 eleven 10 10 9)
       = ((one_cursor eleven)(0 := one_cursor eleven 0),
          (active_at ''cimv2'' 0 eleven 10 10 9)
            \<lparr>batch := [], current_index := 0, is_end := True\<rparr>)"
    using failing it(2,3) by blast
  have incr_ending: "operator_preincrement store_enumerator BATCH_SIZE
         ((one_cursor eleven)(0 := at_position eleven 11))
         (active_at ''cimv2'' 0 eleven 10 10 9)
       = ((one_cursor eleven)(0 := at_position eleven 11, 0 := at_position eleven 11),
          (active_at ''cimv2'' 0 eleven 10 10 9)
            \<lparr>batch := [], current_index := 0, is_end := True\<rparr>)"
    using ending it(2,3) by blast
  have loop: "iterate failing_enumerator BATCH_SIZE ((one_cursor eleven)(0 := one_cursor eleven 0))
         (snd (FetchNextBatch failing_enumerator BATCH_SIZE (one_cursor eleven)
                (active_at ''cimv2'' 0 eleven 10 10 9)))
         (exhausted_at ''cimv2'' 0) [wrap ''cimv2'' 10]
       = Some ((one_cursor eleven)(0 := one_cursor eleven 0), Inr [wrap ''cimv2'' 10])"
    using failing it(4) by blast
  show ?thesis
    using it failed(1) ended(1) FAILED_codes(2,3) incr_failing incr_ending loop
    by (intro conjI)
qed

text \<open>
  C9. On an exhausted iterator prefix and postfix \<open>operator++\<close>, and any number of them in
  a row, change neither the iterator nor the cursors. Over a backing store of \<open>N\<close>
  records the iterator of \<open>begin()\<close> is exhausted after \<open>k\<close> advances exactly when
  \<open>k \<ge> N\<close>: the flag is set by the advance past the last record and stays set.
\<close>

theorem exhausted_is_terminal:
  "(is_end it \<longrightarrow>
      operator_preincrement E B \<sigma> it = (\<sigma>, it)
      \<and> operator_postincrement E B \<sigma> it = ((\<sigma>, it), it)
      \<and> advance E B n (\<sigma>, it) = (\<sigma>, it))
   \<and> (1 \<le> B' \<and> qr_enumerator qr = Some p \<and> records (\<tau> p) = xs \<longrightarrow>
        (is_end (snd (advance store_enumerator B' k
                       (QueryResult_begin store_enumerator B' \<tau> qr)))
         \<longleftrightarrow> length xs \<le> k))"
  using advance_begin_store [of B' qr p \<tau> xs k]
  by (simp add: advance_exhausted operator_postincrement_def operator_preincrement_def)

theorem exhausted_is_terminal_witness:
  "is_end (exhausted_at ''cimv2'' 0)
   \<and> operator_preincrement store_enumerator BATCH_SIZE (one_cursor eleven) (exhausted_at ''cimv2'' 0)
       = (one_cursor eleven, exhausted_at ''cimv2'' 0)
   \<and> advance store_enumerator BATCH_SIZE 5 (one_cursor eleven, exhausted_at ''cimv2'' 0)
       = (one_cursor eleven, exhausted_at ''cimv2'' 0)
   \<and> 1 \<le> BATCH_SIZE \<and> qr_enumerator result_at_0 = Some 0
   \<and> records (one_cursor eleven 0) = eleven
   \<and> \<not> is_end (snd (advance store_enumerator BATCH_SIZE 10
                      (QueryResult_begin store_enumerator BATCH_SIZE (one_cursor eleven) result_at_0)))
   \<and> is_end (snd (advance store_enumerator BATCH_SIZE 11
                    (QueryResult_begin store_enumerator BATCH_SIZE (one_cursor eleven) result_at_0)))
   \<and> is_end (snd (advance store_enumerator BATCH_SIZE 12
                    (QueryResult_begin store_enumerator BATCH_SIZE (one_cursor eleven) result_at_0)))"
  using exhausted_is_terminal [of "exhausted_at ''cimv2'' 0" store_enumerator BATCH_SIZE
      "one_cursor eleven" 5 BATCH_SIZE result_at_0 0 "one_cursor eleven" eleven 10]
    exhausted_is_terminal [of "exhausted_at ''cimv2'' 0" store_enumerator BATCH_SIZE
      "one_cursor eleven" 5 BATCH_SIZE result_at_0 0 "one_cursor eleven" eleven 11]
    exhausted_is_terminal [of "exhausted_at ''cimv2'' 0" store_enumerator BATCH_SIZE
      "one_cursor eleven" 5 BATCH_SIZE result_at_0 0 "one_cursor eleven" eleven 12]
  by (simp add: BATCH_SIZE_def result_at_0_def one_cursor_def length_eleven)

text \<open>
  C10. For a query result whose cursor is null, \<open>begin()\<close> gives an iterator with the
  end-of-sequence flag clear and an empty batch, and calls no cursor. That iterator differs
  from the sentinel of \<open>end()\<close>, its dereference reads index 0 of an empty batch, and one
  \<open>operator++\<close> sets its flag. The range-based \<open>for\<close> therefore dereferences outside the
  batch at once.
\<close>

theorem null_cursor_begin:
  assumes "qr_enumerator qr = None"
  shows "QueryResult_begin E B \<sigma> qr
           = (\<sigma>, \<lparr>iface = qr_iface qr, enumerator = None, batch = [], current_index = 0,
                  is_end = False\<rparr>)
         \<and> operator_ne (snd (QueryResult_begin E B \<sigma> qr)) (snd (QueryResult_end E B \<sigma> qr))
         \<and> \<not> operator_eq (snd (QueryResult_begin E B \<sigma> qr)) (snd (QueryResult_end E B \<sigma> qr))
         \<and> operator_star (snd (QueryResult_begin E B \<sigma> qr)) = None
         \<and> operator_preincrement E B \<sigma> (snd (QueryResult_begin E B \<sigma> qr))
             = (\<sigma>, \<lparr>iface = qr_iface qr, enumerator = None, batch = [], current_index = 0,
                    is_end = True\<rparr>)
         \<and> range_for E B \<sigma> qr = Some (\<sigma>, Inl out_of_range)"
proof -
  have b: "QueryResult_begin E B \<sigma> qr
           = (\<sigma>, \<lparr>iface = qr_iface qr, enumerator = None, batch = [], current_index = 0,
                  is_end = False\<rparr>)"
    using assms by (simp add: QueryResult_begin_def Iterator_ctor_def)
  have "range_for E B \<sigma> qr = Some (\<sigma>, Inl out_of_range)"
    by (simp add: range_for_def b end_sentinel)
       (subst iterate.simps, simp add: operator_ne_def operator_eq_def operator_star_def)
  then show ?thesis
    by (simp add: b end_sentinel operator_ne_def operator_eq_def operator_star_def
        operator_preincrement_def FetchNextBatch_def)
qed

theorem null_cursor_begin_witness:
  "qr_enumerator null_result = None
   \<and> QueryResult_begin store_enumerator BATCH_SIZE (one_cursor eleven) null_result
       = (one_cursor eleven,
          \<lparr>iface = qr_iface null_result, enumerator = None, batch = [], current_index = 0,
           is_end = False\<rparr>)
   \<and> operator_ne
         (snd (QueryResult_begin store_enumerator BATCH_SIZE (one_cursor eleven) null_result))
         (snd (QueryResult_end store_enumerator BATCH_SIZE (one_cursor eleven) null_result))
   \<and> \<not> operator_eq
         (snd (QueryResult_begin store_enumerator BATCH_SIZE (one_cursor eleven) null_result))
         (snd (QueryResult_end store_enumerator BATCH_SIZE (one_cursor eleven) null_result))
   \<and> operator_star
         (snd (QueryResult_begin store_enumerator BATCH_SIZE (one_cursor eleven) null_result))
       = None
   \<and> operator_preincrement store_enumerator BATCH_SIZE (one_cursor eleven)
         (snd (QueryResult_begin store_enumerator BATCH_SIZE (one_cursor eleven) null_result))
       = (one_cursor eleven,
          \<lparr>iface = qr_iface null_result, enumerator = None, batch = [], current_index = 0,
           is_end = True\<rparr>)
   \<and> range_for store_enumerator BATCH_SIZE (one_cursor eleven) null_result
       = Some (one_cursor eleven, Inl out_of_range)"
proof -
  have null: "qr_enumerator null_result = None"
    by (simp add: null_result_def)
  show ?thesis
    using null null_cursor_begin [OF null, of store_enumerator BATCH_SIZE "one_cursor eleven"]
    by (rule conjI)
qed


end
